theory Spec2Isabelle
  imports Main
begin

section \<open>The catalog record and the error kinds\<close>

text \<open>
  \<^verbatim>\<open>books.Book\<close> is a Go struct with nine fields. A \<^verbatim>\<open>time.Time\<close> is modelled as the
  number of nanoseconds since Go's zero instant, so \<^verbatim>\<open>IsZero\<close> is equality with 0; the
  pointer \<^verbatim>\<open>*time.Time\<close> of \<^verbatim>\<open>DeletedAt\<close> is an option. Identifiers are \<^verbatim>\<open>int64\<close> in
  Go; they are produced by the table's counter only, never by arithmetic of the program,
  and are modelled as integers.
\<close>

type_synonym Time = int

record Book =
  ID :: int
  Title :: string
  Author :: string
  ISBN :: string
  Description :: string
  PublishedAt :: Time
  CreatedAt :: Time
  UpdatedAt :: Time
  DeletedAt :: "Time option"

text \<open>
  The error a caller sees is the cause of the wrapped error (\<^verbatim>\<open>errors.Cause\<close>, as the API's
  \<^verbatim>\<open>ErrorHandler\<close> reads it): the three sentinels of package \<^verbatim>\<open>books\<close>, the cache's
  \<^verbatim>\<open>ErrCacheMiss\<close>, any other error of the cache (\<open>CacheFailure\<close>: connection loss,
  timeout, a value that does not decode), any other error of the database driver
  (\<open>StorageFailure\<close>), and the \<^verbatim>\<open>validate.Validator\<close> of the API controller with its
  messages.
\<close>

datatype error =
    ErrBookNotFound
  | ErrBookAlreadyExists
  | ErrInvalidBookData
  | ErrCacheMiss
  | CacheFailure
  | StorageFailure
  | Validator "string list"

section \<open>The books table\<close>

text \<open>
  The table of \<^verbatim>\<open>migrations/001_create_books_table.sql\<close>: its rows in insertion order,
  the \<^verbatim>\<open>AUTO_INCREMENT\<close> counter, and whether the server answers at all (a statement sent
  while it does not fails with a driver error and changes nothing). Column values are
  stored as they are bound and compared by equality; column widths, collations and the
  precision of \<^verbatim>\<open>DATETIME(6)\<close> belong to the database server and are not modelled.
\<close>

record Table =
  rows :: "Book list"
  auto_increment :: int
  online :: bool

datatype sql_error = MySQLError nat | DriverError | ErrNoRows

text \<open>
  \<^verbatim>\<open>UNIQUE KEY UQ_books_title_author_isbn (title, author, isbn)\<close>: the key is over every
  row of the table; the statement has no condition on \<^verbatim>\<open>deletedAt\<close>. The repository always
  binds a Go string for \<^verbatim>\<open>isbn\<close>, so the column is never NULL.
\<close>

definition UQ_books_title_author_isbn :: "Book \<Rightarrow> string \<times> string \<times> string" where
  "UQ_books_title_author_isbn b = (Title b, Author b, ISBN b)"

text \<open>
  \<^verbatim>\<open>INSERT INTO books (title, author, isbn, description, publishedAt, createdAt, updatedAt)\<close>:
  the id comes from the counter and \<^verbatim>\<open>deletedAt\<close> is NULL, whatever the bound struct
  holds in these two fields. A duplicate of the unique key is MySQL error 1062; the
  counter value reserved for the refused row is not given back.
\<close>

definition sql_insert :: "Table \<Rightarrow> Book \<Rightarrow> (sql_error + int) \<times> Table" where
  "sql_insert t book =
     (if \<not> online t then (Inl DriverError, t)
      else if \<exists>r \<in> set (rows t). UQ_books_title_author_isbn r = UQ_books_title_author_isbn book
      then (Inl (MySQLError 1062), t\<lparr>auto_increment := auto_increment t + 1\<rparr>)
      else (Inr (auto_increment t),
            t\<lparr>rows := rows t @ [book\<lparr>ID := auto_increment t, DeletedAt := None\<rparr>],
              auto_increment := auto_increment t + 1\<rparr>))"

text \<open>\<^verbatim>\<open>SELECT ... FROM books WHERE id = ? AND deletedAt IS NULL\<close>, read with \<^verbatim>\<open>GetContext\<close>.\<close>

definition sql_select_by_id :: "Table \<Rightarrow> int \<Rightarrow> sql_error + Book" where
  "sql_select_by_id t bid =
     (if \<not> online t then Inl DriverError
      else case find (\<lambda>r. ID r = bid \<and> DeletedAt r = None) (rows t) of
             None \<Rightarrow> Inl ErrNoRows
           | Some r \<Rightarrow> Inr r)"

text \<open>
  The query of \<^verbatim>\<open>GetAll\<close>: \<^verbatim>\<open>WHERE deletedAt IS NULL\<close>, then \<^verbatim>\<open>AND author = ?\<close> when the
  pointer is not nil and not the empty string, \<^verbatim>\<open>ORDER BY id ASC\<close>, then \<^verbatim>\<open>LIMIT ?\<close> when
  \<open>limit > 0\<close> and, inside that branch only, \<^verbatim>\<open>OFFSET ?\<close> when \<open>offset > 0\<close>.
\<close>

definition sql_select_all :: "Table \<Rightarrow> string option \<Rightarrow> int \<Rightarrow> int \<Rightarrow> sql_error + Book list" where
  "sql_select_all t author limit offset =
     (if \<not> online t then Inl DriverError
      else
        let active = filter (\<lambda>r. DeletedAt r = None) (rows t);
            matching = (case author of
                          None \<Rightarrow> active
                        | Some a \<Rightarrow> if a \<noteq> [] then filter (\<lambda>r. Author r = a) active else active);
            ordered = sort_key ID matching
        in Inr (if limit > 0
                then (if offset > 0 then take (nat limit) (drop (nat offset) ordered)
                      else take (nat limit) ordered)
                else ordered))"

text \<open>
  \<^verbatim>\<open>UPDATE books SET title, author, isbn, description, publishedAt, updatedAt
  WHERE id = :id AND deletedAt IS NULL\<close>. The statement is refused with error 1062 when a
  row it would change takes the unique key of a row it does not change.
\<close>

definition set_fields :: "Book \<Rightarrow> Book \<Rightarrow> Book" where
  "set_fields book r =
     r\<lparr>Title := Title book, Author := Author book, ISBN := ISBN book,
       Description := Description book, PublishedAt := PublishedAt book,
       UpdatedAt := UpdatedAt book\<rparr>"

definition sql_update :: "Table \<Rightarrow> int \<Rightarrow> Book \<Rightarrow> (sql_error + unit) \<times> Table" where
  "sql_update t bid book =
     (let hit = (\<lambda>r. ID r = bid \<and> DeletedAt r = None) in
      if \<not> online t then (Inl DriverError, t)
      else if (\<exists>r \<in> set (rows t). hit r) \<and>
              (\<exists>r \<in> set (rows t). \<not> hit r \<and>
                 UQ_books_title_author_isbn r = UQ_books_title_author_isbn book)
      then (Inl (MySQLError 1062), t)
      else (Inr (), t\<lparr>rows := map (\<lambda>r. if hit r then set_fields book r else r) (rows t)\<rparr>))"

text \<open>\<^verbatim>\<open>UPDATE books SET deletedAt = :deletedAt WHERE id = :id AND deletedAt IS NULL\<close>.\<close>

definition sql_soft_delete :: "Table \<Rightarrow> int \<Rightarrow> Time \<Rightarrow> (sql_error + unit) \<times> Table" where
  "sql_soft_delete t bid now =
     (if \<not> online t then (Inl DriverError, t)
      else (Inr (), t\<lparr>rows := map (\<lambda>r. if ID r = bid \<and> DeletedAt r = None
                                         then r\<lparr>DeletedAt := Some now\<rparr> else r) (rows t)\<rparr>))"

section \<open>The repository (package mysql)\<close>

text \<open>
  Each method returns what the Go method returns, with the table after the call. The
  clock reading \<^verbatim>\<open>time.Now().UTC()\<close> of \<^verbatim>\<open>Delete\<close> is the argument \<open>now\<close>.
\<close>

definition BookRepository_Create :: "Table \<Rightarrow> Book \<Rightarrow> (error + Book) \<times> Table" where
  "BookRepository_Create t book =
     (case sql_insert t book of
        (Inl err, t') \<Rightarrow>
          (if err = MySQLError 1062 then Inl ErrBookAlreadyExists else Inl StorageFailure, t')
      | (Inr bid, t') \<Rightarrow> (Inr (book\<lparr>ID := bid\<rparr>), t'))"

definition BookRepository_GetByID :: "Table \<Rightarrow> int \<Rightarrow> error + Book" where
  "BookRepository_GetByID t bid =
     (case sql_select_by_id t bid of
        Inl err \<Rightarrow> if err = ErrNoRows then Inl ErrBookNotFound else Inl StorageFailure
      | Inr book \<Rightarrow> Inr book)"

definition BookRepository_GetAll ::
  "Table \<Rightarrow> string option \<Rightarrow> int \<Rightarrow> int \<Rightarrow> error + Book list" where
  "BookRepository_GetAll t author limit offset =
     (case sql_select_all t author limit offset of
        Inl err \<Rightarrow> Inl StorageFailure
      | Inr bookList \<Rightarrow> Inr bookList)"

definition BookRepository_Update :: "Table \<Rightarrow> int \<Rightarrow> Book \<Rightarrow> (error + Book) \<times> Table" where
  "BookRepository_Update t bid book =
     (case BookRepository_GetByID t bid of
        Inl err \<Rightarrow> (Inl err, t)
      | Inr existingBook \<Rightarrow>
          (case sql_update t bid book of
             (Inl err, t') \<Rightarrow>
               (if err = MySQLError 1062 then Inl ErrBookAlreadyExists else Inl StorageFailure, t')
           | (Inr _, t') \<Rightarrow> (Inr (set_fields book existingBook), t')))"

definition BookRepository_Delete :: "Table \<Rightarrow> Time \<Rightarrow> int \<Rightarrow> (error + unit) \<times> Table" where
  "BookRepository_Delete t now bid =
     (case BookRepository_GetByID t bid of
        Inl err \<Rightarrow> (Inl err, t)
      | Inr _ \<Rightarrow>
          (case sql_soft_delete t bid now of
             (Inl err, t') \<Rightarrow> (Inl StorageFailure, t')
           | (Inr _, t') \<Rightarrow> (Inr (), t')))"

section \<open>The cache (package cache)\<close>

text \<open>
  The cache holds the JSON of what \<^verbatim>\<open>Set\<close> was given: a book or a list of books. The
  value is kept as it is, since \<^verbatim>\<open>json.Marshal\<close> followed by \<^verbatim>\<open>json.Unmarshal\<close> gives the
  struct back. A cache that cannot be reached fails every call.
\<close>

datatype cached = CachedBook Book | CachedBooks "Book list"

record Cache =
  store :: "string \<rightharpoonup> cached"
  up :: bool

definition Cache_Get :: "Cache \<Rightarrow> string \<Rightarrow> error + cached" where
  "Cache_Get c key =
     (if \<not> up c then Inl CacheFailure
      else case store c key of
             None \<Rightarrow> Inl ErrCacheMiss
           | Some val \<Rightarrow> Inr val)"

text \<open>
  \<^verbatim>\<open>Get(ctx, key, &book)\<close> and \<^verbatim>\<open>Get(ctx, key, &books)\<close>: the JSON of a list does not decode
  into a struct, nor that of a struct into a slice; \<^verbatim>\<open>json.Unmarshal\<close> returns an error.
\<close>

definition Cache_Get_Book :: "Cache \<Rightarrow> string \<Rightarrow> error + Book" where
  "Cache_Get_Book c key =
     (case Cache_Get c key of
        Inl err \<Rightarrow> Inl err
      | Inr (CachedBook book) \<Rightarrow> Inr book
      | Inr (CachedBooks _) \<Rightarrow> Inl CacheFailure)"

definition Cache_Get_Books :: "Cache \<Rightarrow> string \<Rightarrow> error + Book list" where
  "Cache_Get_Books c key =
     (case Cache_Get c key of
        Inl err \<Rightarrow> Inl err
      | Inr (CachedBooks books) \<Rightarrow> Inr books
      | Inr (CachedBook _) \<Rightarrow> Inl CacheFailure)"

text \<open>
  \<^verbatim>\<open>Set\<close> and \<^verbatim>\<open>Delete\<close> are only ever called with their error dropped (\<^verbatim>\<open>_ = s.cache...\<close>),
  so the model returns the cache after the call. The expiry time is carried by the call
  and not stored: a key may expire at any moment (see \<open>Expire\<close> below).
\<close>

definition Cache_Set :: "Cache \<Rightarrow> string \<Rightarrow> cached \<Rightarrow> nat \<Rightarrow> Cache" where
  "Cache_Set c key val expires = (if up c then c\<lparr>store := (store c)(key \<mapsto> val)\<rparr> else c)"

definition Cache_Delete :: "Cache \<Rightarrow> string \<Rightarrow> Cache" where
  "Cache_Delete c key = (if up c then c\<lparr>store := (store c)(key := None)\<rparr> else c)"

section \<open>Cache keys\<close>

text \<open>The verb \<^verbatim>\<open>%d\<close> of \<^verbatim>\<open>fmt.Sprintf\<close> on an \<^verbatim>\<open>int64\<close>: decimal digits, a minus sign first.\<close>

definition digit_char :: "nat \<Rightarrow> char" where
  "digit_char d = ''0123456789'' ! d"

fun digits :: "nat \<Rightarrow> string" where
  "digits n = (if n < 10 then [digit_char n]
               else digits (n div 10) @ [digit_char (n mod 10)])"

declare digits.simps [simp del]

definition Sprintf_d :: "int \<Rightarrow> string" where
  "Sprintf_d i = (if i < 0 then CHR ''-'' # digits (nat (- i)) else digits (nat i))"

definition getAllCacheKey :: "string option \<Rightarrow> string" where
  "getAllCacheKey author =
     (case author of
        None \<Rightarrow> ''books:books:getall:all''
      | Some a \<Rightarrow> if a \<noteq> [] then ''books:books:getall:author:'' @ a
                  else ''books:books:getall:all'')"

definition getByIDCacheKey :: "int \<Rightarrow> string" where
  "getByIDCacheKey bid = ''books:books:getbyid:'' @ Sprintf_d bid"

section \<open>The service (package books)\<close>

text \<open>
  A \<^verbatim>\<open>BookService\<close> holds its repository (here: the table the repository reads and
  writes) and a pointer to the cache, nil when Redis could not be reached at start-up.

  A method's outcome is what the caller gets back, the table after the call, the calls
  made to the two collaborators before the method returns, in order, and the goroutines
  it started (\<^verbatim>\<open>go func() { ... }()\<close>), each the list of cache calls it will make. The
  goroutines run later, if at all; the method does not wait for them.
\<close>

record BookService =
  repo :: Table
  cache :: "Cache option"

datatype call =
    RepoCreate Book
  | RepoGetByID int
  | RepoGetAll "string option" int int
  | RepoUpdate int Book
  | RepoDelete int
  | CacheGet string

datatype cache_op = CacheSet string cached nat | CacheDelete string

record 'a outcome =
  result :: "error + 'a"
  table :: Table
  calls :: "call list"
  spawned :: "cache_op list list"

text \<open>\<^verbatim>\<open>time.Hour*1\<close>, in seconds.\<close>

definition Hour :: nat where
  "Hour = 3600"

text \<open>
  \<^verbatim>\<open>Create\<close> stamps both timestamps with one clock reading \<open>now\<close>, overwriting what the
  argument holds, and makes no check of its own on the title or the author.
\<close>

definition BookService_Create :: "BookService \<Rightarrow> Time \<Rightarrow> Book \<Rightarrow> Book outcome" where
  "BookService_Create s now book0 =
     (let book = book0\<lparr>CreatedAt := now, UpdatedAt := now\<rparr> in
      case BookRepository_Create (repo s) book of
        (Inl err, t') \<Rightarrow>
          \<lparr>result = Inl err, table = t', calls = [RepoCreate book], spawned = []\<rparr>
      | (Inr createdBook, t') \<Rightarrow>
          \<lparr>result = Inr createdBook, table = t', calls = [RepoCreate book],
           spawned = (if cache s \<noteq> None then [[CacheDelete (getAllCacheKey None)]] else [])\<rparr>)"

definition BookService_GetByID :: "BookService \<Rightarrow> int \<Rightarrow> Book outcome" where
  "BookService_GetByID s bid =
     (let cacheKey = getByIDCacheKey bid;
          looked = (if cache s \<noteq> None then [CacheGet cacheKey] else []);
          hit = (case cache s of
                   None \<Rightarrow> None
                 | Some c \<Rightarrow> (case Cache_Get_Book c cacheKey of
                                Inl err \<Rightarrow> None
                              | Inr book \<Rightarrow> Some book))
      in case hit of
           Some book \<Rightarrow> \<lparr>result = Inr book, table = repo s, calls = looked, spawned = []\<rparr>
         | None \<Rightarrow>
             (case BookRepository_GetByID (repo s) bid of
                Inl err \<Rightarrow>
                  \<lparr>result = Inl err, table = repo s, calls = looked @ [RepoGetByID bid],
                   spawned = []\<rparr>
              | Inr book \<Rightarrow>
                  \<lparr>result = Inr book, table = repo s, calls = looked @ [RepoGetByID bid],
                   spawned = (if cache s \<noteq> None
                              then [[CacheSet cacheKey (CachedBook book) Hour]] else [])\<rparr>))"

definition BookService_GetAll ::
  "BookService \<Rightarrow> string option \<Rightarrow> int \<Rightarrow> int \<Rightarrow> Book list outcome" where
  "BookService_GetAll s author limit offset =
     (let cacheKey = getAllCacheKey author;
          cached = (cache s \<noteq> None \<and> limit = 0 \<and> offset = 0);
          looked = (if cached then [CacheGet cacheKey] else []);
          hit = (case cache s of
                   None \<Rightarrow> None
                 | Some c \<Rightarrow> if limit = 0 \<and> offset = 0
                              then (case Cache_Get_Books c cacheKey of
                                      Inl err \<Rightarrow> None
                                    | Inr books \<Rightarrow> Some books)
                              else None)
      in case hit of
           Some books \<Rightarrow> \<lparr>result = Inr books, table = repo s, calls = looked, spawned = []\<rparr>
         | None \<Rightarrow>
             (case BookRepository_GetAll (repo s) author limit offset of
                Inl err \<Rightarrow>
                  \<lparr>result = Inl err, table = repo s,
                   calls = looked @ [RepoGetAll author limit offset], spawned = []\<rparr>
              | Inr books \<Rightarrow>
                  \<lparr>result = Inr books, table = repo s,
                   calls = looked @ [RepoGetAll author limit offset],
                   spawned = (if cached
                              then [[CacheSet cacheKey (CachedBooks books) Hour]] else [])\<rparr>))"

text \<open>
  \<^verbatim>\<open>Update\<close> reads the clock once for \<^verbatim>\<open>UpdatedAt\<close> (\<open>now\<close>) and once more (\<open>now'\<close>) when
  \<^verbatim>\<open>PublishedAt\<close> is the zero time.
\<close>

definition BookService_Update ::
  "BookService \<Rightarrow> Time \<Rightarrow> Time \<Rightarrow> int \<Rightarrow> Book \<Rightarrow> Book outcome" where
  "BookService_Update s now now' bid book0 =
     (if Title book0 = [] then
        \<lparr>result = Inl ErrInvalidBookData, table = repo s, calls = [], spawned = []\<rparr>
      else if Author book0 = [] then
        \<lparr>result = Inl ErrInvalidBookData, table = repo s, calls = [], spawned = []\<rparr>
      else
        let book1 = book0\<lparr>UpdatedAt := now\<rparr>;
            book = (if PublishedAt book1 = 0 then book1\<lparr>PublishedAt := now'\<rparr> else book1)
        in case BookRepository_Update (repo s) bid book of
             (Inl err, t') \<Rightarrow>
               \<lparr>result = Inl err, table = t', calls = [RepoUpdate bid book], spawned = []\<rparr>
           | (Inr updatedBook, t') \<Rightarrow>
               \<lparr>result = Inr updatedBook, table = t', calls = [RepoUpdate bid book],
                spawned = (if cache s \<noteq> None
                           then [[CacheDelete (getByIDCacheKey bid),
                                  CacheDelete (getAllCacheKey None)]]
                           else [])\<rparr>)"

definition BookService_Delete :: "BookService \<Rightarrow> Time \<Rightarrow> int \<Rightarrow> unit outcome" where
  "BookService_Delete s now bid =
     (case BookRepository_Delete (repo s) now bid of
        (Inl err, t') \<Rightarrow>
          \<lparr>result = Inl err, table = t', calls = [RepoDelete bid], spawned = []\<rparr>
      | (Inr _, t') \<Rightarrow>
          \<lparr>result = Inr (), table = t', calls = [RepoDelete bid],
           spawned = (if cache s \<noteq> None
                      then [[CacheDelete (getByIDCacheKey bid),
                             CacheDelete (getAllCacheKey None)]]
                      else [])\<rparr>)"

section \<open>The API controller (package api)\<close>









text \<open>
  \<^verbatim>\<open>BookController.Create\<close>, after the request body has been bound. \<^verbatim>\<open>validate.Required\<close>
  adds a message for an empty value; the fields of the request carry the names of their
  JSON keys. The date parser \<^verbatim>\<open>time.Parse("2006-01-02", _)\<close> of Go's library is the
  argument \<open>time_Parse\<close>. The book handed to the service has the five fields of the
  request and Go's zero values elsewhere.
\<close>

record CreateBookRequest =
  req_title :: string
  req_author :: string
  req_isbn :: string
  req_description :: string
  req_publishedAt :: string

definition Required :: "string list \<Rightarrow> string \<Rightarrow> string \<Rightarrow> string list" where
  "Required errors field val = (if val = [] then errors @ [field @ '' is required''] else errors)"

definition BookController_Create ::
  "(string \<Rightarrow> Time option) \<Rightarrow> BookService \<Rightarrow> Time \<Rightarrow> CreateBookRequest \<Rightarrow> Book outcome" where
  "BookController_Create time_Parse s now req =
     (let v = Required (Required (Required [] ''title'' (req_title req))
                          ''author'' (req_author req))
                ''publishedAt'' (req_publishedAt req)
      in if v \<noteq> [] then
           \<lparr>result = Inl (Validator v), table = repo s, calls = [], spawned = []\<rparr>
         else
           (case time_Parse (req_publishedAt req) of
              None \<Rightarrow>
                \<lparr>result = Inl ErrInvalidBookData, table = repo s, calls = [], spawned = []\<rparr>
            | Some publishedAt \<Rightarrow>
                BookService_Create s now
                  \<lparr>ID = 0, Title = req_title req, Author = req_author req, ISBN = req_isbn req,
                   Description = req_description req, PublishedAt = publishedAt,
                   CreatedAt = 0, UpdatedAt = 0, DeletedAt = None\<rparr>))"

section \<open>The running system\<close>

text \<open>
  The system is the table, the cache the service was given (if any) and the goroutines
  started and not yet finished. It moves by the five calls of the service, each with the
  clock readings it makes; by a goroutine making its next cache call; by a cached key
  reaching its expiry; and by the database or the cache becoming reachable or not.
\<close>

record World =
  db :: Table
  redis :: "Cache option"
  goroutines :: "cache_op list list"

datatype event =
    CallCreate Time Book
  | CallGetByID int
  | CallGetAll "string option" int int
  | CallUpdate Time Time int Book
  | CallDelete Time int
  | Background nat
  | Expire string
  | DbOnline bool
  | CacheUp bool

definition service_of :: "World \<Rightarrow> BookService" where
  "service_of w = \<lparr>repo = db w, cache = redis w\<rparr>"

definition after :: "World \<Rightarrow> 'a outcome \<Rightarrow> World" where
  "after w out = w\<lparr>db := table out, goroutines := goroutines w @ spawned out\<rparr>"

definition run_cache_op :: "cache_op \<Rightarrow> Cache \<Rightarrow> Cache" where
  "run_cache_op op c =
     (case op of
        CacheSet key val expires \<Rightarrow> Cache_Set c key val expires
      | CacheDelete key \<Rightarrow> Cache_Delete c key)"

text \<open>
  Goroutine number \<open>n\<close> makes its next cache call; a goroutine with no call left is
  dropped from the list.
\<close>

definition background :: "World \<Rightarrow> nat \<Rightarrow> World" where
  "background w n =
     (if n < length (goroutines w) then
        (case goroutines w ! n of
           [] \<Rightarrow> w\<lparr>goroutines := take n (goroutines w) @ drop (Suc n) (goroutines w)\<rparr>
         | op # ops \<Rightarrow>
             w\<lparr>redis := map_option (run_cache_op op) (redis w),
               goroutines := (if ops = []
                              then take n (goroutines w) @ drop (Suc n) (goroutines w)
                              else (goroutines w)[n := ops])\<rparr>)
      else w)"

definition step :: "World \<Rightarrow> event \<Rightarrow> World" where
  "step w e =
     (case e of
        CallCreate now book \<Rightarrow> after w (BookService_Create (service_of w) now book)
      | CallGetByID bid \<Rightarrow> after w (BookService_GetByID (service_of w) bid)
      | CallGetAll author limit offset \<Rightarrow>
          after w (BookService_GetAll (service_of w) author limit offset)
      | CallUpdate now now' bid book \<Rightarrow>
          after w (BookService_Update (service_of w) now now' bid book)
      | CallDelete now bid \<Rightarrow> after w (BookService_Delete (service_of w) now bid)
      | Background n \<Rightarrow> background w n
      | Expire key \<Rightarrow>
          w\<lparr>redis := map_option (\<lambda>c. c\<lparr>store := (store c)(key := None)\<rparr>) (redis w)\<rparr>
      | DbOnline b \<Rightarrow> w\<lparr>db := (db w)\<lparr>online := b\<rparr>\<rparr>
      | CacheUp b \<Rightarrow> w\<lparr>redis := map_option (\<lambda>c. c\<lparr>up := b\<rparr>) (redis w)\<rparr>)"

definition run :: "World \<Rightarrow> event list \<Rightarrow> World" where
  "run w es = foldl step w es"

text \<open>
  The start: an empty table whose counter stands at 1, and either no cache or an empty
  one, with no goroutine running.
\<close>

definition start :: "bool \<Rightarrow> World" where
  "start with_cache =
     \<lparr>db = \<lparr>rows = [], auto_increment = 1, online = True\<rparr>,
      redis = (if with_cache then Some \<lparr>store = Map.empty, up = True\<rparr> else None),
      goroutines = []\<rparr>"

section \<open>The specification's words\<close>

text \<open>
  The rows a \<^verbatim>\<open>GetAll\<close> request is about, as the specification describes them: the
  active rows, those of the given author when one is given, by ascending id. Page \<open>P\<close> of
  size \<open>L\<close> of a list is its elements at the indices from \<open>(P - 1) * L\<close> up to, but not
  including, \<open>P * L\<close>, as far as the list goes.
\<close>

definition matching :: "Table \<Rightarrow> string \<Rightarrow> Book list" where
  "matching t author =
     sort_key ID (filter (\<lambda>r. DeletedAt r = None \<and> (author = [] \<or> Author r = author)) (rows t))"

definition page_slice :: "'a list \<Rightarrow> int \<Rightarrow> int \<Rightarrow> 'a list" where
  "page_slice xs P L = map (\<lambda>i. xs ! i) [nat ((P - 1) * L) ..< min (nat (P * L)) (length xs)]"

section \<open>Invariants\<close>

text \<open>
  A table is well formed when no two rows have the same id and every id is below the
  counter. \<open>keeps_deleted t t'\<close> relates a table to a later one: the rows of \<open>t\<close> are
  still there, in their places and with their ids, the counter has not gone back, and a
  row that was soft-deleted in \<open>t\<close> is the same record in \<open>t'\<close>.
\<close>

definition table_ok :: "Table \<Rightarrow> bool" where
  "table_ok t \<longleftrightarrow> distinct (map ID (rows t)) \<and> (\<forall>r \<in> set (rows t). ID r < auto_increment t)"

definition keeps_deleted :: "Table \<Rightarrow> Table \<Rightarrow> bool" where
  "keeps_deleted t t' \<longleftrightarrow>
     length (rows t) \<le> length (rows t') \<and> auto_increment t \<le> auto_increment t' \<and>
     (\<forall>i < length (rows t).
        ID (rows t' ! i) = ID (rows t ! i) \<and>
        (DeletedAt (rows t ! i) \<noteq> None \<longrightarrow> rows t' ! i = rows t ! i))"




section \<open>Sample data\<close>

text \<open>Two catalog records as a caller would pass them, used where a statement is run.\<close>

definition dune :: Book where
  "dune = \<lparr>ID = 0, Title = ''Dune'', Author = ''Herbert'', ISBN = ''1'', Description = [],
           PublishedAt = 5, CreatedAt = 0, UpdatedAt = 0, DeletedAt = None\<rparr>"

definition emma :: Book where
  "emma = \<lparr>ID = 0, Title = ''Emma'', Author = ''Austen'', ISBN = ''2'', Description = [],
           PublishedAt = 6, CreatedAt = 0, UpdatedAt = 0, DeletedAt = None\<rparr>"

text \<open>
  Three runs of the system from its start. In the first, Dune is created and deleted. In
  the second, with a cache, Dune is created, read and deleted, and the goroutines run in
  this order: the one of the delete (it clears the key of id 1, then the key of the
  list), the one of the read (it writes the book under the key of id 1), the one of the
  create. In the third, with a cache, Dune is created and its goroutine runs, the
  unfiltered list is read, Emma is created, and then the goroutine of the second create
  runs before the goroutine of the read (which writes the list it was given).
\<close>

definition dune_deleted :: World where
  "dune_deleted = run (start False) [CallCreate 10 dune, CallDelete 20 1]"



section \<open>What each method of the service returns\<close>

text \<open>
  The fields of an outcome, method by method, read off the definitions. The later
  sections use these equations in place of the definitions.
\<close>

lemma Create_result:
  "result (BookService_Create s now book) =
     fst (BookRepository_Create (repo s) (book\<lparr>CreatedAt := now, UpdatedAt := now\<rparr>))"
  by (simp add: BookService_Create_def Let_def split: prod.split sum.split)

lemma Create_table:
  "table (BookService_Create s now book) =
     snd (BookRepository_Create (repo s) (book\<lparr>CreatedAt := now, UpdatedAt := now\<rparr>))"
  by (simp add: BookService_Create_def Let_def split: prod.split sum.split)

lemma Create_calls:
  "calls (BookService_Create s now book) =
     [RepoCreate (book\<lparr>CreatedAt := now, UpdatedAt := now\<rparr>)]"
  by (simp add: BookService_Create_def Let_def split: prod.split sum.split)

lemma Create_spawned:
  "spawned (BookService_Create s now book) =
     (case result (BookService_Create s now book) of
        Inl err \<Rightarrow> []
      | Inr created \<Rightarrow>
          if cache s \<noteq> None then [[CacheDelete (getAllCacheKey None)]] else [])"
  by (simp add: BookService_Create_def Let_def split: prod.split sum.split)

lemma GetByID_result:
  "result (BookService_GetByID s bid) =
     (case (case cache s of
              None \<Rightarrow> None
            | Some c \<Rightarrow> (case Cache_Get_Book c (getByIDCacheKey bid) of
                           Inl err \<Rightarrow> None | Inr book \<Rightarrow> Some book)) of
        Some book \<Rightarrow> Inr book
      | None \<Rightarrow> BookRepository_GetByID (repo s) bid)"
  by (simp add: BookService_GetByID_def Let_def split: option.split sum.split)

lemma GetByID_table: "table (BookService_GetByID s bid) = repo s"
  by (simp add: BookService_GetByID_def Let_def split: option.split sum.split)


lemma GetAll_result:
  "result (BookService_GetAll s author limit offset) =
     (case (case cache s of
              None \<Rightarrow> None
            | Some c \<Rightarrow> if limit = 0 \<and> offset = 0
                         then (case Cache_Get_Books c (getAllCacheKey author) of
                                 Inl err \<Rightarrow> None | Inr books \<Rightarrow> Some books)
                         else None) of
        Some books \<Rightarrow> Inr books
      | None \<Rightarrow> BookRepository_GetAll (repo s) author limit offset)"
  by (simp add: BookService_GetAll_def Let_def split: option.split sum.split)

lemma GetAll_table: "table (BookService_GetAll s author limit offset) = repo s"
  by (simp add: BookService_GetAll_def Let_def split: option.split sum.split)

lemma GetAll_spawned:
  "spawned (BookService_GetAll s author limit offset) =
     (case cache s of
        None \<Rightarrow> []
      | Some c \<Rightarrow>
          if limit = 0 \<and> offset = 0 then
            (case Cache_Get_Books c (getAllCacheKey author) of
               Inr hit \<Rightarrow> []
             | Inl miss \<Rightarrow>
                 (case BookRepository_GetAll (repo s) author limit offset of
                    Inl err \<Rightarrow> []
                  | Inr books \<Rightarrow> [[CacheSet (getAllCacheKey author) (CachedBooks books) Hour]]))
          else [])"
proof (cases "limit = 0 \<and> offset = 0")
  case True
  then show ?thesis
    by (auto simp add: BookService_GetAll_def Let_def split: option.split sum.split)
next
  case False
  then show ?thesis
    by (auto simp add: BookService_GetAll_def Let_def split: option.split sum.split)
qed

lemma Update_invalid:
  "Title book = [] \<or> Author book = [] \<Longrightarrow>
   BookService_Update s now now' bid book =
     \<lparr>result = Inl ErrInvalidBookData, table = repo s, calls = [], spawned = []\<rparr>"
  by (auto simp: BookService_Update_def)

lemma Update_result:
  "Title book \<noteq> [] \<Longrightarrow> Author book \<noteq> [] \<Longrightarrow>
   result (BookService_Update s now now' bid book) =
     fst (BookRepository_Update (repo s) bid 
          (if PublishedAt book = 0 then book\<lparr>UpdatedAt := now, PublishedAt := now'\<rparr>
            else book\<lparr>UpdatedAt := now\<rparr>))"
  by (simp add: BookService_Update_def Let_def split: prod.split sum.split)

lemma Update_table:
  "Title book \<noteq> [] \<Longrightarrow> Author book \<noteq> [] \<Longrightarrow>
   table (BookService_Update s now now' bid book) =
     snd (BookRepository_Update (repo s) bid 
          (if PublishedAt book = 0 then book\<lparr>UpdatedAt := now, PublishedAt := now'\<rparr>
            else book\<lparr>UpdatedAt := now\<rparr>))"
  by (simp add: BookService_Update_def Let_def split: prod.split sum.split)

lemma Update_spawned:
  "spawned (BookService_Update s now now' bid book) =
     (case result (BookService_Update s now now' bid book) of
        Inl err \<Rightarrow> []
      | Inr updated \<Rightarrow>
          if cache s \<noteq> None
          then [[CacheDelete (getByIDCacheKey bid), CacheDelete (getAllCacheKey None)]]
          else [])"
  by (simp add: BookService_Update_def Let_def split: prod.split sum.split)

lemma Delete_result:
  "result (BookService_Delete s now bid) = fst (BookRepository_Delete (repo s) now bid)"
  by (simp add: BookService_Delete_def split: prod.split sum.split)

lemma Delete_table:
  "table (BookService_Delete s now bid) = snd (BookRepository_Delete (repo s) now bid)"
  by (simp add: BookService_Delete_def split: prod.split sum.split)

lemma Delete_spawned:
  "spawned (BookService_Delete s now bid) =
     (case result (BookService_Delete s now bid) of
        Inl err \<Rightarrow> []
      | Inr u \<Rightarrow>
          if cache s \<noteq> None
          then [[CacheDelete (getByIDCacheKey bid), CacheDelete (getAllCacheKey None)]]
          else [])"
  by (simp add: BookService_Delete_def split: prod.split sum.split)

section \<open>What the repository returns\<close>

text \<open>
  The branch of \<^verbatim>\<open>BookRepository.Create\<close> for an error of \<^verbatim>\<open>LastInsertId\<close> is not in the
  model: the MySQL driver reads the id from the reply to the insert and returns no error.
\<close>

lemma repo_Create_offline:
  "\<not> online t \<Longrightarrow> BookRepository_Create t book = (Inl StorageFailure, t)"
  by (simp add: BookRepository_Create_def sql_insert_def)

lemma repo_Create_duplicate:
  "online t \<Longrightarrow>
   \<exists>r \<in> set (rows t). UQ_books_title_author_isbn r = UQ_books_title_author_isbn book \<Longrightarrow>
   BookRepository_Create t book =
     (Inl ErrBookAlreadyExists, t\<lparr>auto_increment := auto_increment t + 1\<rparr>)"
  by (simp add: BookRepository_Create_def sql_insert_def)

lemma repo_Create_fresh:
  "online t \<Longrightarrow>
   \<not> (\<exists>r \<in> set (rows t). UQ_books_title_author_isbn r = UQ_books_title_author_isbn book) \<Longrightarrow>
   BookRepository_Create t book =
     (Inr (book\<lparr>ID := auto_increment t\<rparr>),
      t\<lparr>rows := rows t @ [book\<lparr>ID := auto_increment t, DeletedAt := None\<rparr>],
        auto_increment := auto_increment t + 1\<rparr>)"
  by (simp add: BookRepository_Create_def sql_insert_def)

lemma repo_GetByID_cases:
  "BookRepository_GetByID t bid =
     (if \<not> online t then Inl StorageFailure
      else case find (\<lambda>r. ID r = bid \<and> DeletedAt r = None) (rows t) of
             None \<Rightarrow> Inl ErrBookNotFound | Some r \<Rightarrow> Inr r)"
  by (simp add: BookRepository_GetByID_def sql_select_by_id_def split: option.split)

lemma repo_GetByID_Inr:
  "BookRepository_GetByID t bid = Inr b \<Longrightarrow>
     online t \<and> b \<in> set (rows t) \<and> ID b = bid \<and> DeletedAt b = None"
  by (auto simp: repo_GetByID_cases find_Some_iff split: if_splits option.splits)

lemma repo_Update_Inr:
  assumes "BookRepository_Update t bid book = (Inr updated, t')"
  shows "\<exists>existing. BookRepository_GetByID t bid = Inr existing \<and>
           updated = set_fields book existing \<and>
           t' = t\<lparr>rows := map (\<lambda>r. if ID r = bid \<and> DeletedAt r = None then set_fields book r else r) (rows t)\<rparr>"
  using assms
  by (auto simp: BookRepository_Update_def sql_update_def Let_def split: sum.splits if_splits prod.splits)

lemma key_of_stamped:
  "UQ_books_title_author_isbn (book\<lparr>CreatedAt := a, UpdatedAt := b\<rparr>) =
     UQ_books_title_author_isbn book"
  by (simp add: UQ_books_title_author_isbn_def)

lemmas run_simps =
  run_def step_def after_def service_of_def start_def background_def run_cache_op_def
  Cache_Set_def Cache_Delete_def Cache_Get_def Cache_Get_Book_def Cache_Get_Books_def
  BookService_Create_def BookService_GetByID_def BookService_GetAll_def
  BookService_Update_def BookService_Delete_def
  BookRepository_Create_def BookRepository_GetByID_def BookRepository_GetAll_def
  BookRepository_Update_def BookRepository_Delete_def
  sql_insert_def sql_select_by_id_def sql_select_all_def sql_update_def sql_soft_delete_def
  set_fields_def UQ_books_title_author_isbn_def getAllCacheKey_def getByIDCacheKey_def
  Sprintf_d_def digits.simps digit_char_def Hour_def dune_def emma_def Let_def

section \<open>Errors of the repository and of the service\<close>

lemma repo_Create_no_cache_error:
  "fst (BookRepository_Create t book) \<noteq> Inl ErrCacheMiss \<and>
   fst (BookRepository_Create t book) \<noteq> Inl CacheFailure"
  by (simp add: BookRepository_Create_def sql_insert_def)

lemma repo_GetByID_no_cache_error:
  "BookRepository_GetByID t bid \<noteq> Inl ErrCacheMiss \<and>
   BookRepository_GetByID t bid \<noteq> Inl CacheFailure"
  by (simp add: repo_GetByID_cases split: option.split)

lemma repo_GetAll_no_cache_error:
  "BookRepository_GetAll t author limit offset \<noteq> Inl ErrCacheMiss \<and>
   BookRepository_GetAll t author limit offset \<noteq> Inl CacheFailure"
  by (simp add: BookRepository_GetAll_def split: sum.split)

lemma repo_Update_no_cache_error:
  "fst (BookRepository_Update t bid book) \<noteq> Inl ErrCacheMiss \<and>
   fst (BookRepository_Update t bid book) \<noteq> Inl CacheFailure"
  using repo_GetByID_no_cache_error [of t bid]
  by (auto simp: BookRepository_Update_def sql_update_def Let_def split: sum.split prod.split)

lemma repo_Delete_no_cache_error:
  "fst (BookRepository_Delete t now bid) \<noteq> Inl ErrCacheMiss \<and>
   fst (BookRepository_Delete t now bid) \<noteq> Inl CacheFailure"
  using repo_GetByID_no_cache_error [of t bid]
  by (auto simp: BookRepository_Delete_def sql_soft_delete_def split: sum.split prod.split)


lemma silent_Book:
  "\<forall>key. \<exists>err. Cache_Get c key = Inl err \<Longrightarrow>
   (case Cache_Get_Book c key of Inl err \<Rightarrow> None | Inr book \<Rightarrow> Some book) = None"
proof -
  assume "\<forall>key. \<exists>err. Cache_Get c key = Inl err"
  then obtain err where "Cache_Get c key = Inl err" by blast
  then show ?thesis by (simp add: Cache_Get_Book_def)
qed

lemma silent_Books:
  "\<forall>key. \<exists>err. Cache_Get c key = Inl err \<Longrightarrow>
   (case Cache_Get_Books c key of Inl err \<Rightarrow> None | Inr books \<Rightarrow> Some books) = None"
proof -
  assume "\<forall>key. \<exists>err. Cache_Get c key = Inl err"
  then obtain err where "Cache_Get c key = Inl err" by blast
  then show ?thesis by (simp add: Cache_Get_Books_def)
qed

lemma GetByID_silent:
  assumes "\<forall>c. cache s = Some c \<longrightarrow> (\<forall>key. \<exists>err. Cache_Get c key = Inl err)"
  shows "result (BookService_GetByID s bid) = BookRepository_GetByID (repo s) bid"
  using assms by (cases "cache s") (simp_all add: GetByID_result silent_Book)

lemma GetAll_silent:
  assumes "\<forall>c. cache s = Some c \<longrightarrow> (\<forall>key. \<exists>err. Cache_Get c key = Inl err)"
  shows "result (BookService_GetAll s author limit offset) =
           BookRepository_GetAll (repo s) author limit offset"
  using assms by (cases "cache s") (simp_all add: GetAll_result silent_Books)

lemma Update_result_cases:
  "result (BookService_Update s now now' bid book) =
     (if Title book = [] \<or> Author book = [] then Inl ErrInvalidBookData
      else fst (BookRepository_Update (repo s) bid
                  (if PublishedAt book = 0 then book\<lparr>UpdatedAt := now, PublishedAt := now'\<rparr>
                   else book\<lparr>UpdatedAt := now\<rparr>)))"
proof (cases "Title book = [] \<or> Author book = []")
  case True
  then show ?thesis by (simp add: Update_invalid)
next
  case False
  then show ?thesis by (simp add: Update_result)
qed

lemma Update_table_cases:
  "table (BookService_Update s now now' bid book) =
     (if Title book = [] \<or> Author book = [] then repo s
      else snd (BookRepository_Update (repo s) bid
                  (if PublishedAt book = 0 then book\<lparr>UpdatedAt := now, PublishedAt := now'\<rparr>
                   else book\<lparr>UpdatedAt := now\<rparr>)))"
proof (cases "Title book = [] \<or> Author book = []")
  case True
  then show ?thesis by (simp add: Update_invalid)
next
  case False
  then show ?thesis by (simp add: Update_table)
qed

lemma service_no_cache_error:
  "result (BookService_Create s now book) \<noteq> Inl ErrCacheMiss \<and>
   result (BookService_Create s now book) \<noteq> Inl CacheFailure \<and>
   result (BookService_GetByID s bid) \<noteq> Inl ErrCacheMiss \<and>
   result (BookService_GetByID s bid) \<noteq> Inl CacheFailure \<and>
   result (BookService_GetAll s author limit offset) \<noteq> Inl ErrCacheMiss \<and>
   result (BookService_GetAll s author limit offset) \<noteq> Inl CacheFailure \<and>
   result (BookService_Update s now now' bid book) \<noteq> Inl ErrCacheMiss \<and>
   result (BookService_Update s now now' bid book) \<noteq> Inl CacheFailure \<and>
   result (BookService_Delete s now bid) \<noteq> Inl ErrCacheMiss \<and>
   result (BookService_Delete s now bid) \<noteq> Inl CacheFailure"
proof -
  have c: "result (BookService_Create s now book) \<noteq> Inl ErrCacheMiss \<and>
           result (BookService_Create s now book) \<noteq> Inl CacheFailure"
    by (simp add: Create_result repo_Create_no_cache_error)
  have g: "result (BookService_GetByID s bid) \<noteq> Inl ErrCacheMiss \<and>
           result (BookService_GetByID s bid) \<noteq> Inl CacheFailure"
    by (simp add: GetByID_result repo_GetByID_no_cache_error split: option.split sum.split)
  have a: "result (BookService_GetAll s author limit offset) \<noteq> Inl ErrCacheMiss \<and>
           result (BookService_GetAll s author limit offset) \<noteq> Inl CacheFailure"
    by (simp add: GetAll_result repo_GetAll_no_cache_error split: option.split sum.split)
  have u: "result (BookService_Update s now now' bid book) \<noteq> Inl ErrCacheMiss \<and>
           result (BookService_Update s now now' bid book) \<noteq> Inl CacheFailure"
    by (simp add: Update_result_cases repo_Update_no_cache_error)
  have d: "result (BookService_Delete s now bid) \<noteq> Inl ErrCacheMiss \<and>
           result (BookService_Delete s now bid) \<noteq> Inl CacheFailure"
    by (simp add: Delete_result repo_Delete_no_cache_error)
  show ?thesis using c g a u d by blast
qed

section \<open>Decimal ids and cache keys are read back\<close>








lemma author_key_not_all: "''books:books:getall:author:'' @ a \<noteq> ''books:books:getall:all''"
  by simp

lemma author_key_not_id: "''books:books:getall:author:'' @ a \<noteq> ''books:books:getbyid:'' @ x"
  by simp

section \<open>Page arithmetic and the query of GetAll\<close>
























section \<open>Every step keeps the invariants\<close>

lemma keeps_deleted_refl: "keeps_deleted t t"
  by (simp add: keeps_deleted_def)

lemma keeps_deleted_trans:
  "keeps_deleted t t' \<Longrightarrow> keeps_deleted t' t'' \<Longrightarrow> keeps_deleted t t''"
  unfolding keeps_deleted_def by (auto; fastforce)

lemma insert_keeps: "keeps_deleted t (snd (sql_insert t book))"
  by (simp add: sql_insert_def keeps_deleted_def nth_append)

lemma update_keeps: "keeps_deleted t (snd (sql_update t bid book))"
  by (simp add: sql_update_def keeps_deleted_def Let_def set_fields_def)

lemma soft_delete_keeps: "keeps_deleted t (snd (sql_soft_delete t bid now))"
  by (simp add: sql_soft_delete_def keeps_deleted_def)

lemma insert_ok: "table_ok t \<Longrightarrow> table_ok (snd (sql_insert t book))"
  by (auto simp: sql_insert_def table_ok_def)

lemma map_ID_update:
  "map ID (map (\<lambda>r. if P r then set_fields book r else r) rs) = map ID rs"
  by (induction rs) (simp_all add: set_fields_def)

lemma map_ID_soft_delete:
  "map ID (map (\<lambda>r. if P r then r\<lparr>DeletedAt := Some now\<rparr> else r) rs) = map ID rs"
  by (induction rs) simp_all

lemma ok_by_ids:
  "table_ok t \<Longrightarrow> map ID (rows t') = map ID (rows t) \<Longrightarrow> auto_increment t \<le> auto_increment t' \<Longrightarrow>
   table_ok t'"
proof -
  assume ok: "table_ok t" and ids: "map ID (rows t') = map ID (rows t)"
    and inc: "auto_increment t \<le> auto_increment t'"
  have "\<forall>x \<in> set (map ID (rows t)). x < auto_increment t"
    using ok by (simp add: table_ok_def)
  then have "\<forall>x \<in> set (map ID (rows t')). x < auto_increment t'"
    using ids inc by fastforce
  then have "\<forall>r \<in> set (rows t'). ID r < auto_increment t'"
    by simp
  moreover have "distinct (map ID (rows t'))"
    using ok ids by (simp add: table_ok_def)
  ultimately show ?thesis
    by (simp add: table_ok_def)
qed

lemma update_ids:
  "map ID (rows (snd (sql_update t bid book))) = map ID (rows t) \<and>
   auto_increment (snd (sql_update t bid book)) = auto_increment t"
proof -
  have "snd (sql_update t bid book) = t \<or>
        snd (sql_update t bid book) =
          t\<lparr>rows := map (\<lambda>r. if ID r = bid \<and> DeletedAt r = None then set_fields book r else r)
                       (rows t)\<rparr>"
    by (simp add: sql_update_def Let_def)
  then show ?thesis
    by (auto simp: map_ID_update simp del: map_map)
qed

lemma update_ok: "table_ok t \<Longrightarrow> table_ok (snd (sql_update t bid book))"
  by (rule ok_by_ids [of t]) (simp_all add: update_ids)

lemma soft_delete_ids:
  "map ID (rows (snd (sql_soft_delete t bid now))) = map ID (rows t) \<and>
   auto_increment (snd (sql_soft_delete t bid now)) = auto_increment t"
proof -
  have "snd (sql_soft_delete t bid now) = t \<or>
        snd (sql_soft_delete t bid now) =
          t\<lparr>rows := map (\<lambda>r. if ID r = bid \<and> DeletedAt r = None
                                  then r\<lparr>DeletedAt := Some now\<rparr> else r) (rows t)\<rparr>"
    by (simp add: sql_soft_delete_def)
  then show ?thesis
    by (auto simp: map_ID_soft_delete simp del: map_map)
qed

lemma soft_delete_ok: "table_ok t \<Longrightarrow> table_ok (snd (sql_soft_delete t bid now))"
  by (rule ok_by_ids [of t]) (simp_all add: soft_delete_ids)

lemma repo_Create_snd: "snd (BookRepository_Create t book) = snd (sql_insert t book)"
  by (simp add: BookRepository_Create_def split: prod.split sum.split)

lemma repo_Update_snd:
  "snd (BookRepository_Update t bid book) = t \<or>
   snd (BookRepository_Update t bid book) = snd (sql_update t bid book)"
  by (simp add: BookRepository_Update_def split: prod.split sum.split)

lemma repo_Delete_snd:
  "snd (BookRepository_Delete t now bid) = t \<or>
   snd (BookRepository_Delete t now bid) = snd (sql_soft_delete t bid now)"
  by (simp add: BookRepository_Delete_def split: prod.split sum.split)

lemma Create_keeps: "keeps_deleted (repo s) (table (BookService_Create s now book))"
  by (simp add: Create_table repo_Create_snd insert_keeps)

lemma repo_Update_keeps: "keeps_deleted t (snd (BookRepository_Update t bid book))"
  using repo_Update_snd [of t bid book] update_keeps [of t bid book]
  by (auto simp: keeps_deleted_refl)

lemma repo_Delete_keeps: "keeps_deleted t (snd (BookRepository_Delete t now bid))"
  using repo_Delete_snd [of t now bid] soft_delete_keeps [of t bid now]
  by (auto simp: keeps_deleted_refl)

lemma repo_Update_ok: "table_ok t \<Longrightarrow> table_ok (snd (BookRepository_Update t bid book))"
  using repo_Update_snd [of t bid book] update_ok [of t bid book]
  by auto

lemma repo_Delete_ok: "table_ok t \<Longrightarrow> table_ok (snd (BookRepository_Delete t now bid))"
  using repo_Delete_snd [of t now bid] soft_delete_ok [of t bid now]
  by auto

lemma Update_keeps: "keeps_deleted (repo s) (table (BookService_Update s now now' bid book))"
  by (simp add: Update_table_cases keeps_deleted_refl repo_Update_keeps)

lemma Delete_keeps: "keeps_deleted (repo s) (table (BookService_Delete s now bid))"
  by (simp add: Delete_table repo_Delete_keeps)

lemma Create_ok: "table_ok (repo s) \<Longrightarrow> table_ok (table (BookService_Create s now book))"
  by (simp add: Create_table repo_Create_snd insert_ok)

lemma Update_ok: "table_ok (repo s) \<Longrightarrow> table_ok (table (BookService_Update s now now' bid book))"
  by (simp add: Update_table_cases repo_Update_ok)

lemma Delete_ok: "table_ok (repo s) \<Longrightarrow> table_ok (table (BookService_Delete s now bid))"
  by (simp add: Delete_table repo_Delete_ok)

lemma db_after: "db (after w out) = table out"
  by (simp add: after_def)

lemma db_background: "db (background w n) = db w"
  by (simp add: background_def split: list.split)

lemma step_keeps: "keeps_deleted (db w) (db (step w e))"
proof (cases e)
  case (CallCreate now book)
  then show ?thesis
    using Create_keeps [of "service_of w" now book] by (simp add: step_def db_after service_of_def)
next
  case (CallGetByID bid)
  then show ?thesis
    by (simp add: step_def db_after GetByID_table service_of_def keeps_deleted_refl)
next
  case (CallGetAll author limit offset)
  then show ?thesis
    by (simp add: step_def db_after GetAll_table service_of_def keeps_deleted_refl)
next
  case (CallUpdate now now' bid book)
  then show ?thesis
    using Update_keeps [of "service_of w" now now' bid book]
    by (simp add: step_def db_after service_of_def)
next
  case (CallDelete now bid)
  then show ?thesis
    using Delete_keeps [of "service_of w" now bid] by (simp add: step_def db_after service_of_def)
next
  case (Background n)
  then show ?thesis by (simp add: step_def db_background keeps_deleted_refl)
next
  case (Expire key)
  then show ?thesis by (simp add: step_def keeps_deleted_refl)
next
  case (DbOnline b)
  then show ?thesis by (simp add: step_def keeps_deleted_def)
next
  case (CacheUp b)
  then show ?thesis by (simp add: step_def keeps_deleted_refl)
qed

lemma step_ok: "table_ok (db w) \<Longrightarrow> table_ok (db (step w e))"
proof (cases e)
  case (CallCreate now book)
  assume "table_ok (db w)"
  with CallCreate show ?thesis
    using Create_ok [of "service_of w" now book] by (simp add: step_def db_after service_of_def)
next
  case (CallGetByID bid)
  assume "table_ok (db w)"
  with CallGetByID show ?thesis
    by (simp add: step_def db_after GetByID_table service_of_def)
next
  case (CallGetAll author limit offset)
  assume "table_ok (db w)"
  with CallGetAll show ?thesis
    by (simp add: step_def db_after GetAll_table service_of_def)
next
  case (CallUpdate now now' bid book)
  assume "table_ok (db w)"
  with CallUpdate show ?thesis
    using Update_ok [of "service_of w" now now' bid book]
    by (simp add: step_def db_after service_of_def)
next
  case (CallDelete now bid)
  assume "table_ok (db w)"
  with CallDelete show ?thesis
    using Delete_ok [of "service_of w" now bid] by (simp add: step_def db_after service_of_def)
next
  case (Background n)
  assume "table_ok (db w)"
  with Background show ?thesis by (simp add: step_def db_background)
next
  case (Expire key)
  assume "table_ok (db w)"
  with Expire show ?thesis by (simp add: step_def)
next
  case (DbOnline b)
  assume "table_ok (db w)"
  with DbOnline show ?thesis by (simp add: step_def table_ok_def)
next
  case (CacheUp b)
  assume "table_ok (db w)"
  with CacheUp show ?thesis by (simp add: step_def)
qed

lemma run_keeps: "keeps_deleted (db w) (db (run w es))"
proof (induction es arbitrary: w)
  case Nil
  show ?case by (simp add: run_def keeps_deleted_refl)
next
  case (Cons e es)
  have "keeps_deleted (db w) (db (step w e))" by (rule step_keeps)
  moreover have "keeps_deleted (db (step w e)) (db (run (step w e) es))" by (rule Cons.IH)
  ultimately show ?case
    by (simp add: run_def keeps_deleted_trans)
qed

lemma run_ok: "table_ok (db w) \<Longrightarrow> table_ok (db (run w es))"
proof (induction es arbitrary: w)
  case Nil
  then show ?case by (simp add: run_def)
next
  case (Cons e es)
  from Cons.prems have "table_ok (db (step w e))" by (rule step_ok)
  then have "table_ok (db (run (step w e) es))" by (rule Cons.IH)
  then show ?case by (simp add: run_def)
qed

lemma start_ok: "table_ok (db (start with_cache))"
  by (simp add: start_def table_ok_def)

lemma run_append: "run w (es @ es') = run (run w es) es'"
  by (simp add: run_def)



















section \<open>C1: uniqueness of (title, author, isbn)\<close>

text \<open>
  C1 says that a second record with the (title, author, isbn) of an active one is refused
  with \<open>ErrBookAlreadyExists\<close>, and that a soft-deleted record with that triple does
  not stand in the way of a new one. The first half holds. The second does not: the
  unique key of the table is over all rows, so once Dune has been created and
  soft-deleted (the run \<open>dune_deleted\<close>), creating Dune again is refused.
\<close>

theorem soft_deleted_triple_blocks_create:
  "rows (db dune_deleted) =
     [dune\<lparr>ID := 1, CreatedAt := 10, UpdatedAt := 10, DeletedAt := Some 20\<rparr>] \<and>
   result (BookService_Create (service_of dune_deleted) 30 dune) = Inl ErrBookAlreadyExists"
  by (simp add: dune_deleted_def run_simps)

text \<open>
  C1 as amended: while the database answers, \<^verbatim>\<open>Create\<close> fails with \<open>ErrBookAlreadyExists\<close>
  exactly when some row of the table, active or soft-deleted, has the title, author and
  isbn of the new record; the rows are then as they were (the refused insert only uses
  up a value of the id counter) and no goroutine is started.
\<close>

theorem create_refused_iff_triple_in_table:
  assumes "online (repo s)"
  shows "(result (BookService_Create s now book) = Inl ErrBookAlreadyExists) =
           (\<exists>r \<in> set (rows (repo s)).
              Title r = Title book \<and> Author r = Author book \<and> ISBN r = ISBN book)
         \<and> (result (BookService_Create s now book) = Inl ErrBookAlreadyExists \<longrightarrow>
              rows (table (BookService_Create s now book)) = rows (repo s) \<and>
              online (table (BookService_Create s now book)) = online (repo s) \<and>
              spawned (BookService_Create s now book) = [])"
proof (cases "\<exists>r \<in> set (rows (repo s)).
                UQ_books_title_author_isbn r = UQ_books_title_author_isbn book")
  case True
  then have dup: "\<exists>r \<in> set (rows (repo s)). UQ_books_title_author_isbn r =
      UQ_books_title_author_isbn (book\<lparr>CreatedAt := now, UpdatedAt := now\<rparr>)"
    by (simp add: key_of_stamped)
  have "\<exists>r \<in> set (rows (repo s)).
          Title r = Title book \<and> Author r = Author book \<and> ISBN r = ISBN book"
    using True by (simp add: UQ_books_title_author_isbn_def)
  then show ?thesis
    by (simp add: Create_result Create_table Create_spawned
        repo_Create_duplicate [OF assms dup])
next
  case False
  then have fresh: "\<not> (\<exists>r \<in> set (rows (repo s)). UQ_books_title_author_isbn r =
      UQ_books_title_author_isbn (book\<lparr>CreatedAt := now, UpdatedAt := now\<rparr>))"
    by (simp add: key_of_stamped)
  have "\<not> (\<exists>r \<in> set (rows (repo s)).
             Title r = Title book \<and> Author r = Author book \<and> ISBN r = ISBN book)"
    using False by (simp add: UQ_books_title_author_isbn_def)
  then show ?thesis
    by (simp add: Create_result repo_Create_fresh [OF assms fresh])
qed

theorem create_refused_iff_triple_in_table_witness:
  "online \<lparr>rows = [dune\<lparr>ID := 1, DeletedAt := Some 20\<rparr>], auto_increment = 2, online = True\<rparr> \<and>
   result (BookService_Create
             \<lparr>repo = \<lparr>rows = [dune\<lparr>ID := 1, DeletedAt := Some 20\<rparr>], auto_increment = 2,
                      online = True\<rparr>,
              cache = None\<rparr> 30 dune) = Inl ErrBookAlreadyExists"
  using create_refused_iff_triple_in_table
    [of "\<lparr>repo = \<lparr>rows = [dune\<lparr>ID := 1, DeletedAt := Some 20\<rparr>], auto_increment = 2,
                   online = True\<rparr>,
           cache = None\<rparr>" 30 dune]
  by simp

section \<open>C2: validation before any collaborator is called\<close>

text \<open>
  \<^verbatim>\<open>Update\<close> checks the title and the author first: with either empty it returns
  \<open>ErrInvalidBookData\<close>, the table is as it was, and neither the repository nor the cache
  has been called (lemma \<open>Update_invalid\<close> above). \<^verbatim>\<open>Create\<close> has no such check.
\<close>

text \<open>
  For \<^verbatim>\<open>Create\<close> the check is made one layer up, in the API controller, which answers an
  empty title or author with the \<^verbatim>\<open>Validator\<close> error and calls nothing; what it does pass
  to the service has a title, an author and no deletedAt.
\<close>

lemma controller_Create_validates:
  "req_title req = [] \<or> req_author req = [] \<Longrightarrow>
   \<exists>v. BookController_Create time_Parse s now req =
         \<lparr>result = Inl (Validator v), table = repo s, calls = [], spawned = []\<rparr>"
  by (auto simp: BookController_Create_def Required_def Let_def)

lemma controller_Create_passes:
  assumes "calls (BookController_Create time_Parse s now req) \<noteq> []"
  shows "req_title req \<noteq> [] \<and> req_author req \<noteq> [] \<and>
         (\<exists>publishedAt.
            BookController_Create time_Parse s now req =
              BookService_Create s now
                \<lparr>ID = 0, Title = req_title req, Author = req_author req, ISBN = req_isbn req,
                 Description = req_description req, PublishedAt = publishedAt,
                 CreatedAt = 0, UpdatedAt = 0, DeletedAt = None\<rparr>)"
proof -
  have t: "req_title req \<noteq> []" and a: "req_author req \<noteq> []"
    using assms
    by (auto simp: BookController_Create_def Required_def Let_def split: if_splits)
  obtain publishedAt where "time_Parse (req_publishedAt req) = Some publishedAt"
    using assms
    by (auto simp: BookController_Create_def Let_def split: if_splits option.splits)
  then have "BookController_Create time_Parse s now req =
      BookService_Create s now
        \<lparr>ID = 0, Title = req_title req, Author = req_author req, ISBN = req_isbn req,
         Description = req_description req, PublishedAt = publishedAt,
         CreatedAt = 0, UpdatedAt = 0, DeletedAt = None\<rparr>"
    using assms
    by (auto simp: BookController_Create_def Let_def split: if_splits)
  then show ?thesis
    using t a by blast
qed

text \<open>
  C2 at \<^verbatim>\<open>Create\<close>: the claim says that a record with an empty title is refused with
  \<open>ErrInvalidBookData\<close> before the repository is called. Run on an empty table, the
  service calls the repository, which stores the record, and returns it.
\<close>

theorem create_with_empty_title_reaches_repository:
  "BookService_Create
     \<lparr>repo = \<lparr>rows = [], auto_increment = 1, online = True\<rparr>, cache = None\<rparr> 7
     (dune\<lparr>Title := []\<rparr>)
   = \<lparr>result = Inr (dune\<lparr>ID := 1, Title := [], CreatedAt := 7, UpdatedAt := 7\<rparr>),
      table = \<lparr>rows = [dune\<lparr>ID := 1, Title := [], CreatedAt := 7, UpdatedAt := 7\<rparr>],
                auto_increment = 2, online = True\<rparr>,
      calls = [RepoCreate (dune\<lparr>Title := [], CreatedAt := 7, UpdatedAt := 7\<rparr>)],
      spawned = []\<rparr>"
  by (simp add: BookService_Create_def BookRepository_Create_def sql_insert_def dune_def)

section \<open>C3: a cache that never answers changes no result\<close>

text \<open>
  C3: when the service has no cache, or every \<^verbatim>\<open>Get\<close> of its cache is a miss or a failure,
  each of the five methods returns what the repository returns (for \<^verbatim>\<open>Create\<close> and
  \<^verbatim>\<open>Update\<close>: on the stamped record), which is also what the same service without a
  cache returns; and whatever the cache does, no method ever returns \<open>ErrCacheMiss\<close> or
  \<open>CacheFailure\<close>.
\<close>

theorem cache_misses_leave_results_to_repository:
  "((\<forall>c. cache s = Some c \<longrightarrow> (\<forall>key. \<exists>err. Cache_Get c key = Inl err)) \<longrightarrow>
      (result (BookService_Create s now book), table (BookService_Create s now book)) =
        BookRepository_Create (repo s) (book\<lparr>CreatedAt := now, UpdatedAt := now\<rparr>) \<and>
      result (BookService_GetByID s bid) = BookRepository_GetByID (repo s) bid \<and>
      result (BookService_GetAll s author limit offset) =
        BookRepository_GetAll (repo s) author limit offset \<and>
      (Title book \<noteq> [] \<and> Author book \<noteq> [] \<longrightarrow>
        (result (BookService_Update s now now' bid book),
         table (BookService_Update s now now' bid book)) =
          BookRepository_Update (repo s) bid
            (if PublishedAt book = 0 then book\<lparr>UpdatedAt := now, PublishedAt := now'\<rparr>
             else book\<lparr>UpdatedAt := now\<rparr>)) \<and>
      (result (BookService_Delete s now bid), table (BookService_Delete s now bid)) =
        BookRepository_Delete (repo s) now bid \<and>
      result (BookService_Create s now book) =
        result (BookService_Create (s\<lparr>cache := None\<rparr>) now book) \<and>
      result (BookService_GetByID s bid) = result (BookService_GetByID (s\<lparr>cache := None\<rparr>) bid) \<and>
      result (BookService_GetAll s author limit offset) =
        result (BookService_GetAll (s\<lparr>cache := None\<rparr>) author limit offset) \<and>
      result (BookService_Update s now now' bid book) =
        result (BookService_Update (s\<lparr>cache := None\<rparr>) now now' bid book) \<and>
      result (BookService_Delete s now bid) =
        result (BookService_Delete (s\<lparr>cache := None\<rparr>) now bid))
   \<and> result (BookService_Create s now book) \<noteq> Inl ErrCacheMiss
   \<and> result (BookService_Create s now book) \<noteq> Inl CacheFailure
   \<and> result (BookService_GetByID s bid) \<noteq> Inl ErrCacheMiss
   \<and> result (BookService_GetByID s bid) \<noteq> Inl CacheFailure
   \<and> result (BookService_GetAll s author limit offset) \<noteq> Inl ErrCacheMiss
   \<and> result (BookService_GetAll s author limit offset) \<noteq> Inl CacheFailure
   \<and> result (BookService_Update s now now' bid book) \<noteq> Inl ErrCacheMiss
   \<and> result (BookService_Update s now now' bid book) \<noteq> Inl CacheFailure
   \<and> result (BookService_Delete s now bid) \<noteq> Inl ErrCacheMiss
   \<and> result (BookService_Delete s now bid) \<noteq> Inl CacheFailure"
proof -
  have silent: "(\<forall>c. cache s = Some c \<longrightarrow> (\<forall>key. \<exists>err. Cache_Get c key = Inl err)) \<Longrightarrow>
      result (BookService_GetByID s bid) = BookRepository_GetByID (repo s) bid \<and>
      result (BookService_GetAll s author limit offset) =
        BookRepository_GetAll (repo s) author limit offset"
    by (simp add: GetByID_silent GetAll_silent)
  have none: "result (BookService_GetByID (s\<lparr>cache := None\<rparr>) bid) = BookRepository_GetByID (repo s) bid \<and>
      result (BookService_GetAll (s\<lparr>cache := None\<rparr>) author limit offset) =
        BookRepository_GetAll (repo s) author limit offset"
    by (simp add: GetByID_result GetAll_result)
  have writes: "(result (BookService_Create s now book), table (BookService_Create s now book)) =
        BookRepository_Create (repo s) (book\<lparr>CreatedAt := now, UpdatedAt := now\<rparr>) \<and>
      (Title book \<noteq> [] \<and> Author book \<noteq> [] \<longrightarrow>
        (result (BookService_Update s now now' bid book),
         table (BookService_Update s now now' bid book)) =
          BookRepository_Update (repo s) bid
            (if PublishedAt book = 0 then book\<lparr>UpdatedAt := now, PublishedAt := now'\<rparr>
             else book\<lparr>UpdatedAt := now\<rparr>)) \<and>
      (result (BookService_Delete s now bid), table (BookService_Delete s now bid)) =
        BookRepository_Delete (repo s) now bid"
    by (simp add: Create_result Create_table Update_result Update_table Delete_result Delete_table)
  have same: "result (BookService_Create s now book) =
        result (BookService_Create (s\<lparr>cache := None\<rparr>) now book) \<and>
      result (BookService_Update s now now' bid book) =
        result (BookService_Update (s\<lparr>cache := None\<rparr>) now now' bid book) \<and>
      result (BookService_Delete s now bid) =
        result (BookService_Delete (s\<lparr>cache := None\<rparr>) now bid)"
    by (simp add: Create_result Update_result_cases Delete_result)
  show ?thesis
    using silent none writes same service_no_cache_error [of s now book bid author limit offset now']
    by simp
qed


theorem cache_misses_leave_results_to_repository_witness:
  "Cache_Get \<lparr>store = [''books:books:getbyid:1'' \<mapsto> CachedBook emma], up = False\<rparr>
     ''books:books:getbyid:1'' = Inl CacheFailure \<and>
   result (BookService_GetByID
             \<lparr>repo = \<lparr>rows = [dune\<lparr>ID := 1\<rparr>], auto_increment = 2, online = True\<rparr>,
              cache = Some \<lparr>store = [''books:books:getbyid:1'' \<mapsto> CachedBook emma], up = False\<rparr>\<rparr> 1)
     = Inr (dune\<lparr>ID := 1\<rparr>)"
proof -
  let ?s = "\<lparr>repo = \<lparr>rows = [dune\<lparr>ID := 1\<rparr>], auto_increment = 2, online = True\<rparr>,
             cache = Some \<lparr>store = [''books:books:getbyid:1'' \<mapsto> CachedBook emma], up = False\<rparr>\<rparr>"
  have silent: "\<forall>c. cache ?s = Some c \<longrightarrow> (\<forall>key. \<exists>err. Cache_Get c key = Inl err)"
    by (simp add: Cache_Get_def)
  have "result (BookService_GetByID ?s 1) = BookRepository_GetByID (repo ?s) 1"
    using cache_misses_leave_results_to_repository [of ?s 0 dune 1 None 0 0 0] silent by blast
  then show ?thesis
    by (simp add: repo_GetByID_cases Cache_Get_def dune_def)
qed

section \<open>C4: GetByID on an id that is absent or soft-deleted\<close>




section \<open>C5: pages of GetAll\<close>


lemma matching_sorted: "sorted (map ID (matching t author))"
  by (simp add: matching_def)

lemma set_matching:
  "set (matching t author) =
     {r \<in> set (rows t). DeletedAt r = None \<and> (author = [] \<or> Author r = author)}"
  by (auto simp: matching_def)

lemma page_slice_past_end: "length xs \<le> nat ((P - 1) * L) \<Longrightarrow> page_slice xs P L = []"
  by (simp add: page_slice_def)





section \<open>C6: a soft-deleted record is never touched again\<close>

text \<open>
  C6: take any state reached from the empty table by calls of the service and steps of
  the goroutines, the cache and the database, and a row of it whose deletedAt is set.
  After any further such steps the row is still in its place and is the same record,
  deletedAt included, and no other row of the table has its id. The reason is in the
  statements themselves (\<open>insert_keeps\<close>, \<open>update_keeps\<close>, \<open>soft_delete_keeps\<close>): the
  two \<^verbatim>\<open>UPDATE\<close> statements carry \<^verbatim>\<open>AND deletedAt IS NULL\<close>, so neither changes a
  soft-deleted row, in whatever order the statements of several calls reach the table.
\<close>

theorem deleted_is_terminal:
  assumes "w = run (start with_cache) es" and "w' = run w es'"
    and "i < length (rows (db w))" and "DeletedAt (rows (db w) ! i) = Some at"
  shows "i < length (rows (db w')) \<and> rows (db w') ! i = rows (db w) ! i \<and>
         (\<forall>j < length (rows (db w')). ID (rows (db w') ! j) = ID (rows (db w) ! i) \<longrightarrow> j = i)"
proof -
  have k: "keeps_deleted (db w) (db w')"
    unfolding assms(2) by (rule run_keeps)
  then have len: "i < length (rows (db w'))" and same: "rows (db w') ! i = rows (db w) ! i"
    using assms(3,4) by (auto simp: keeps_deleted_def)
  have "table_ok (db w)"
    unfolding assms(1) by (rule run_ok [OF start_ok])
  then have "table_ok (db w')"
    unfolding assms(2) by (rule run_ok)
  then have d: "distinct (map ID (rows (db w')))"
    by (simp add: table_ok_def)
  have "j = i" if j: "j < length (rows (db w'))"
    and e: "ID (rows (db w') ! j) = ID (rows (db w) ! i)" for j
  proof -
    have "map ID (rows (db w')) ! j = map ID (rows (db w')) ! i"
      using j len e same by simp
    moreover have "j < length (map ID (rows (db w')))" "i < length (map ID (rows (db w')))"
      using j len by simp_all
    ultimately show ?thesis
      using d nth_eq_iff_index_eq by blast
  qed
  then show ?thesis using len same by blast
qed

theorem deleted_is_terminal_witness:
  "DeletedAt (rows (db (run (start False) [CallCreate 10 dune, CallDelete 20 1])) ! 0) = Some 20 \<and>
   rows (db (run (run (start False) [CallCreate 10 dune, CallDelete 20 1])
                 [CallUpdate 30 31 1 emma, CallDelete 40 1, CallCreate 50 emma])) ! 0
     = dune\<lparr>ID := 1, CreatedAt := 10, UpdatedAt := 10, DeletedAt := Some 20\<rparr>"
proof -
  let ?w = "run (start False) [CallCreate 10 dune, CallDelete 20 1]"
  let ?w' = "run ?w [CallUpdate 30 31 1 emma, CallDelete 40 1, CallCreate 50 emma]"
  have r: "rows (db ?w) = [dune\<lparr>ID := 1, CreatedAt := 10, UpdatedAt := 10, DeletedAt := Some 20\<rparr>]"
    by (simp add: run_simps)
  have i: "0 < length (rows (db ?w))" and d: "DeletedAt (rows (db ?w) ! 0) = Some 20"
    by (simp_all add: r)
  have "rows (db ?w') ! 0 = rows (db ?w) ! 0"
    using deleted_is_terminal [OF refl refl i d] by blast
  then show ?thesis
    using d by (simp add: r)
qed

section \<open>C7: Create, then GetByID\<close>




section \<open>C8: what a successful Update changes\<close>

text \<open>
  C8: after a successful \<^verbatim>\<open>Update\<close> of \<open>bid\<close> the table has the same rows in the same
  places, each with its id, createdAt and deletedAt as before. The active row with the
  id \<open>bid\<close> has the title, author, isbn, description and publishedAt that were passed
  (publishedAt read from the clock when the zero time was passed) and the updatedAt read
  from the clock; every other row is equal to what it was. The record returned is that
  row.
\<close>

theorem update_frame:
  assumes ok: "result (BookService_Update s now now' bid book) = Inr updated"
  shows "length (rows (table (BookService_Update s now now' bid book))) = length (rows (repo s)) \<and>
         auto_increment (table (BookService_Update s now now' bid book)) = auto_increment (repo s) \<and>
         online (table (BookService_Update s now now' bid book)) = online (repo s) \<and>
         (\<forall>i < length (rows (repo s)).
            let r = rows (repo s) ! i; r' = rows (table (BookService_Update s now now' bid book)) ! i
            in ID r' = ID r \<and> CreatedAt r' = CreatedAt r \<and> DeletedAt r' = DeletedAt r \<and>
               (if ID r = bid \<and> DeletedAt r = None
                then Title r' = Title book \<and> Author r' = Author book \<and> ISBN r' = ISBN book \<and>
                     Description r' = Description book \<and>
                     PublishedAt r' = (if PublishedAt book = 0 then now' else PublishedAt book) \<and>
                     UpdatedAt r' = now
                else r' = r)) \<and>
         ID updated = bid \<and> DeletedAt updated = None \<and>
         updated \<in> set (rows (table (BookService_Update s now now' bid book))) \<and>
         (\<exists>existing \<in> set (rows (repo s)).
            ID existing = bid \<and> DeletedAt existing = None \<and> CreatedAt updated = CreatedAt existing)"
proof -
  let ?arg = "if PublishedAt book = 0 then book\<lparr>UpdatedAt := now, PublishedAt := now'\<rparr>
              else book\<lparr>UpdatedAt := now\<rparr>"
  let ?out = "BookService_Update s now now' bid book"
  have valid: "Title book \<noteq> []" "Author book \<noteq> []"
    using ok by (auto simp: BookService_Update_def split: if_splits)
  have "BookRepository_Update (repo s) bid ?arg = (result ?out, table ?out)"
    by (simp add: Update_result [OF valid] Update_table [OF valid])
  then have "BookRepository_Update (repo s) bid ?arg = (Inr updated, table ?out)"
    by (simp add: ok)
  from repo_Update_Inr [OF this] obtain existing where
    ex: "BookRepository_GetByID (repo s) bid = Inr existing" and
    upd: "updated = set_fields ?arg existing" and
    tab: "table ?out = (repo s)\<lparr>rows := map (\<lambda>r. if ID r = bid \<and> DeletedAt r = None
                                               then set_fields ?arg r else r) (rows (repo s))\<rparr>"
    by blast
  from repo_GetByID_Inr [OF ex] have
    mem: "existing \<in> set (rows (repo s))" and eid: "ID existing = bid"
    and eact: "DeletedAt existing = None"
    by simp_all
  have frame: "\<forall>i < length (rows (repo s)).
            let r = rows (repo s) ! i; r' = rows (table ?out) ! i
            in ID r' = ID r \<and> CreatedAt r' = CreatedAt r \<and> DeletedAt r' = DeletedAt r \<and>
               (if ID r = bid \<and> DeletedAt r = None
                then Title r' = Title book \<and> Author r' = Author book \<and> ISBN r' = ISBN book \<and>
                     Description r' = Description book \<and>
                     PublishedAt r' = (if PublishedAt book = 0 then now' else PublishedAt book) \<and>
                     UpdatedAt r' = now
                else r' = r)"
    by (simp add: tab set_fields_def Let_def)
  have inrows: "updated \<in> set (rows (table ?out))"
    using mem eid eact by (auto simp: tab upd image_iff intro!: bexI [of _ existing])
  have ret: "ID updated = bid \<and> DeletedAt updated = None \<and> CreatedAt updated = CreatedAt existing"
    by (simp add: upd set_fields_def eid eact)
  show ?thesis
    using frame inrows ret mem eid eact by (auto simp: tab)
qed


theorem update_frame_witness:
  "result (BookService_Update
             \<lparr>repo = \<lparr>rows = [dune\<lparr>ID := 1\<rparr>, emma\<lparr>ID := 2\<rparr>], auto_increment = 3,
                      online = True\<rparr>, cache = None\<rparr>
             40 41 1 (emma\<lparr>Title := ''Persuasion''\<rparr>))
     = Inr (emma\<lparr>ID := 1, Title := ''Persuasion'', UpdatedAt := 40\<rparr>) \<and>
   length (rows (table (BookService_Update
             \<lparr>repo = \<lparr>rows = [dune\<lparr>ID := 1\<rparr>, emma\<lparr>ID := 2\<rparr>], auto_increment = 3,
                      online = True\<rparr>, cache = None\<rparr>
             40 41 1 (emma\<lparr>Title := ''Persuasion''\<rparr>)))) = 2"
proof -
  let ?s = "\<lparr>repo = \<lparr>rows = [dune\<lparr>ID := 1\<rparr>, emma\<lparr>ID := 2\<rparr>], auto_increment = 3,
                     online = True\<rparr>, cache = None\<rparr>"
  have ok: "result (BookService_Update ?s 40 41 1 (emma\<lparr>Title := ''Persuasion''\<rparr>))
              = Inr (emma\<lparr>ID := 1, Title := ''Persuasion'', UpdatedAt := 40\<rparr>)"
    by (simp add: run_simps)
  show ?thesis
    using ok update_frame [OF ok] by simp
qed

section \<open>C9: cache keys and invalidation\<close>

text \<open>
  C9: the key of one record is \<^verbatim>\<open>books:books:getbyid:\<close> followed by the id in decimal,
  the key of the unfiltered list is \<^verbatim>\<open>books:books:getall:all\<close>, and the key of the list of
  a (non-empty) author is \<^verbatim>\<open>books:books:getall:author:\<close> followed by the author. A
  successful \<^verbatim>\<open>Create\<close> of a service with a cache starts one goroutine, which deletes the
  unfiltered key; a successful \<^verbatim>\<open>Update\<close> or \<^verbatim>\<open>Delete\<close> of \<open>bid\<close> starts one goroutine,
  which deletes the key of \<open>bid\<close> and then the unfiltered key; a failed call, and a
  service without a cache, start none. No key of an author's list is ever deleted.
\<close>

theorem cache_keys_and_invalidation:
  "getByIDCacheKey bid = ''books:books:getbyid:'' @ Sprintf_d bid \<and>
   getAllCacheKey None = ''books:books:getall:all'' \<and>
   (a \<noteq> [] \<longrightarrow> getAllCacheKey (Some a) = ''books:books:getall:author:'' @ a) \<and>
   spawned (BookService_Create s now book) =
     (if (\<exists>b. result (BookService_Create s now book) = Inr b) \<and> cache s \<noteq> None
      then [[CacheDelete ''books:books:getall:all'']] else []) \<and>
   spawned (BookService_Update s now now' bid book) =
     (if (\<exists>b. result (BookService_Update s now now' bid book) = Inr b) \<and> cache s \<noteq> None
      then [[CacheDelete (''books:books:getbyid:'' @ Sprintf_d bid),
             CacheDelete ''books:books:getall:all'']] else []) \<and>
   spawned (BookService_Delete s now bid) =
     (if result (BookService_Delete s now bid) = Inr () \<and> cache s \<noteq> None
      then [[CacheDelete (''books:books:getbyid:'' @ Sprintf_d bid),
             CacheDelete ''books:books:getall:all'']] else []) \<and>
   CacheDelete (''books:books:getall:author:'' @ a) \<notin>
     set (concat (spawned (BookService_Create s now book))) \<union>
     set (concat (spawned (BookService_Update s now now' bid book))) \<union>
     set (concat (spawned (BookService_Delete s now bid)))"
proof -
  have k1: "getByIDCacheKey bid = ''books:books:getbyid:'' @ Sprintf_d bid"
    by (simp add: getByIDCacheKey_def)
  have k2: "getAllCacheKey None = ''books:books:getall:all''"
    by (simp add: getAllCacheKey_def)
  have k3: "a \<noteq> [] \<longrightarrow> getAllCacheKey (Some a) = ''books:books:getall:author:'' @ a"
    by (simp add: getAllCacheKey_def)
  have c: "spawned (BookService_Create s now book) =
     (if (\<exists>b. result (BookService_Create s now book) = Inr b) \<and> cache s \<noteq> None
      then [[CacheDelete ''books:books:getall:all'']] else [])"
    by (simp add: Create_spawned k2 split: sum.split)
  have u: "spawned (BookService_Update s now now' bid book) =
     (if (\<exists>b. result (BookService_Update s now now' bid book) = Inr b) \<and> cache s \<noteq> None
      then [[CacheDelete (''books:books:getbyid:'' @ Sprintf_d bid),
             CacheDelete ''books:books:getall:all'']] else [])"
    by (simp add: Update_spawned k1 k2 split: sum.split)
  have d: "spawned (BookService_Delete s now bid) =
     (if result (BookService_Delete s now bid) = Inr () \<and> cache s \<noteq> None
      then [[CacheDelete (''books:books:getbyid:'' @ Sprintf_d bid),
             CacheDelete ''books:books:getall:all'']] else [])"
    by (simp add: Delete_spawned k1 k2 split: sum.split)
  have n: "CacheDelete (''books:books:getall:author:'' @ a) \<notin>
     set (concat (spawned (BookService_Create s now book))) \<union>
     set (concat (spawned (BookService_Update s now now' bid book))) \<union>
     set (concat (spawned (BookService_Delete s now bid)))"
    unfolding c u d by simp
  show ?thesis
    using k1 k2 k3 c u d n by blast
qed


theorem cache_keys_and_invalidation_witness:
  "getByIDCacheKey 15 = ''books:books:getbyid:15'' \<and>
   getAllCacheKey (Some ''Austen'') = ''books:books:getall:author:Austen'' \<and>
   spawned (BookService_Delete
              \<lparr>repo = \<lparr>rows = [dune\<lparr>ID := 15\<rparr>], auto_increment = 16, online = True\<rparr>,
               cache = Some \<lparr>store = Map.empty, up = True\<rparr>\<rparr> 50 15)
     = [[CacheDelete ''books:books:getbyid:15'', CacheDelete ''books:books:getall:all'']]"
  using cache_keys_and_invalidation
    [of 15 "''Austen''"
        "\<lparr>repo = \<lparr>rows = [dune\<lparr>ID := 15\<rparr>], auto_increment = 16, online = True\<rparr>,
          cache = Some \<lparr>store = Map.empty, up = True\<rparr>\<rparr>" 50 dune 51]
  by (simp add: Delete_result BookRepository_Delete_def repo_GetByID_cases sql_soft_delete_def
      Sprintf_d_def digits.simps digit_char_def dune_def)

section \<open>C10: an empty author is no filter\<close>

text \<open>
  C10: with the author pointer at the empty string, the repository returns what it
  returns for a nil pointer, the cache key is the unfiltered one, and the service returns
  the same result, leaves the same table and starts the same goroutines, for every limit
  and offset.
\<close>

theorem empty_author_is_no_filter:
  "BookRepository_GetAll t (Some []) limit offset = BookRepository_GetAll t None limit offset \<and>
   getAllCacheKey (Some []) = getAllCacheKey None \<and>
   result (BookService_GetAll s (Some []) limit offset) =
     result (BookService_GetAll s None limit offset) \<and>
   table (BookService_GetAll s (Some []) limit offset) =
     table (BookService_GetAll s None limit offset) \<and>
   spawned (BookService_GetAll s (Some []) limit offset) =
     spawned (BookService_GetAll s None limit offset)"
proof -
  have k: "getAllCacheKey (Some []) = getAllCacheKey None"
    by (simp add: getAllCacheKey_def)
  have q: "sql_select_all u (Some []) limit offset = sql_select_all u None limit offset" for u
    by (simp add: sql_select_all_def)
  have r: "BookRepository_GetAll u (Some []) limit offset =
           BookRepository_GetAll u None limit offset" for u
    by (simp add: BookRepository_GetAll_def q)
  have res: "result (BookService_GetAll s (Some []) limit offset) =
             result (BookService_GetAll s None limit offset)"
    by (simp only: GetAll_result k r)
  show ?thesis
    by (simp only: GetAll_table GetAll_spawned res k r simp_thms)
qed

theorem empty_author_is_no_filter_witness:
  "result (BookService_GetAll
             \<lparr>repo = \<lparr>rows = [dune\<lparr>ID := 1\<rparr>, emma\<lparr>ID := 2\<rparr>], auto_increment = 3,
                      online = True\<rparr>, cache = None\<rparr> (Some []) 0 0)
     = Inr [dune\<lparr>ID := 1\<rparr>, emma\<lparr>ID := 2\<rparr>] \<and>
   result (BookService_GetAll
             \<lparr>repo = \<lparr>rows = [dune\<lparr>ID := 1\<rparr>, emma\<lparr>ID := 2\<rparr>], auto_increment = 3,
                      online = True\<rparr>, cache = None\<rparr> None 0 0)
     = Inr [dune\<lparr>ID := 1\<rparr>, emma\<lparr>ID := 2\<rparr>]"
  using empty_author_is_no_filter
    [of "\<lparr>rows = [dune\<lparr>ID := 1\<rparr>, emma\<lparr>ID := 2\<rparr>], auto_increment = 3, online = True\<rparr>" 0 0
        "\<lparr>repo = \<lparr>rows = [dune\<lparr>ID := 1\<rparr>, emma\<lparr>ID := 2\<rparr>], auto_increment = 3,
                 online = True\<rparr>, cache = None\<rparr>"]
  by (simp add: GetAll_result BookRepository_GetAll_def sql_select_all_def dune_def emma_def)

end
